theory Spec2Isabelle
  imports Main "HOL-Library.Multiset"
begin

section \<open>JavaScript values and objects\<close>

text \<open>
  The controller \<^verbatim>\<open>src/controllers/upload-controller-2.js\<close> handles plain
  JavaScript values: the cells of a CSV line are strings, a property that an object
  does not have reads as \<^verbatim>\<open>undefined\<close>, and the values of the decoded token and
  of the deduplicator's JSON answer are JSON values. A number is kept as the text that
  \<^verbatim>\<open>String()\<close> prints for it (\<^verbatim>\<open>4\<close>, \<^verbatim>\<open>1.5\<close>, \<^verbatim>\<open>1e+21\<close>): numbers
  are only copied, compared and printed here, and two numbers print the same text
  exactly when \<^verbatim>\<open>includes\<close> takes them for the same value.
\<close>

datatype jsval = JUndefined | JNull | JBool bool | JNum string | JStr string

text \<open>
  Property names. csv-parser is created with \<^verbatim>\<open>{ headers: true }\<close>; it then names
  the cell at position \<open>i\<close> of a line \<^verbatim>\<open>_i\<close> (the handler reads \<^verbatim>\<open>data._0\<close>
  and \<^verbatim>\<open>data._12\<close>). \<open>Col i\<close> is the property \<^verbatim>\<open>_i\<close>; \<open>Name s\<close> is a property
  the controller names itself (\<^verbatim>\<open>providerId\<close>, \<^verbatim>\<open>rejectionReason\<close>,
  \<^verbatim>\<open>ctc_number\<close>, ...).
\<close>

datatype key = Col nat | Name string

text \<open>
  An object is its properties in insertion order, which is the order
  \<^verbatim>\<open>Object.keys\<close> lists them in (no property name here is an array index).
\<close>

type_synonym obj = "(key \<times> jsval) list"

text \<open>\<^verbatim>\<open>o.k\<close>: the value of the property, \<^verbatim>\<open>undefined\<close> when \<^verbatim>\<open>o\<close> has none.\<close>

definition get_prop :: "obj \<Rightarrow> key \<Rightarrow> jsval" where
  "get_prop ob k = (case map_of ob k of None \<Rightarrow> JUndefined | Some v \<Rightarrow> v)"

text \<open>
  \<^verbatim>\<open>o.k = v\<close>: an existing property keeps its place and takes the new value, a new one
  is added last.
\<close>

fun set_prop :: "obj \<Rightarrow> key \<Rightarrow> jsval \<Rightarrow> obj" where
  "set_prop [] k v = [(k, v)]"
| "set_prop ((k', v') # ob) k v =
     (if k' = k then (k, v) # ob else (k', v') # set_prop ob k v)"

definition Object_keys :: "obj \<Rightarrow> key list" where
  "Object_keys ob = map fst ob"

text \<open>
  \<^verbatim>\<open>Array.prototype.includes\<close> compares with SameValueZero, which on the values above
  is equality; in particular \<^verbatim>\<open>[undefined].includes(undefined)\<close> is true.
\<close>

definition js_includes :: "jsval list \<Rightarrow> jsval \<Rightarrow> bool" where
  "js_includes xs v = (v \<in> set xs)"

text \<open>\<^verbatim>\<open>String(v)\<close>.\<close>

fun String_of :: "jsval \<Rightarrow> string" where
  "String_of JUndefined = ''undefined''"
| "String_of JNull = ''null''"
| "String_of (JBool b) = (if b then ''true'' else ''false'')"
| "String_of (JNum s) = s"
| "String_of (JStr s) = s"

text \<open>\<^verbatim>\<open>s.split(c)\<close> for a one-character separator: never the empty list.\<close>

fun split_on :: "char \<Rightarrow> string \<Rightarrow> string list" where
  "split_on c [] = [[]]"
| "split_on c (x # xs) =
     (if x = c then [] # split_on c xs
      else (case split_on c xs of
              [] \<Rightarrow> [[x]]
            | w # ws \<Rightarrow> (x # w) # ws))"

section \<open>The request and its collaborators\<close>

text \<open>
  \<^verbatim>\<open>req.decoded.data\<close>: the caller's identity, put on the request by the
  authentication middleware before \<^verbatim>\<open>create\<close> runs.
\<close>

record identity =
  providerId :: jsval
  team :: jsval
  teamId :: jsval
  locationId :: jsval

text \<open>
  \<^verbatim>\<open>req.file\<close> (the field \<open>req_file\<close> below): the uploaded file's name and
  its bytes. The bytes reach the handler only through csv-parser, one \<^verbatim>\<open>data\<close>
  event per line, so \<open>buffer\<close> holds the cells of each line in the order of the file
  (the first line included: with \<^verbatim>\<open>headers: true\<close> no line is consumed as a
  header).
\<close>

record upload_file =
  originalname :: string
  buffer :: "string list list"

record request =
  req_file :: "upload_file option"
  decoded :: identity

text \<open>
  The answer of \<^verbatim>\<open>fetch("http://localhost:8090/get-uploaded-ctc-numbers")\<close>:
  its \<^verbatim>\<open>ok\<close> flag (a 2xx status) and the JSON array of objects in its body.
\<close>

record fetch_response =
  ok :: bool
  json :: "obj list"

text \<open>
  Modelled from the spec: the csv-parser package is not among the sources. The spec's
  Row is "an ordered mapping from column position ... to string value, read one per input
  line"; the code reads position 0 as \<^verbatim>\<open>data._0\<close> and position 12 as \<^verbatim>\<open>data._12\<close>.
\<close>

definition writeRow :: "string list \<Rightarrow> obj" where
  "writeRow cells = map (\<lambda>(index, cell). (Col index, JStr cell)) (enumerate 0 cells)"

text \<open>
  What \<^verbatim>\<open>throw new Error(msg)\<close> and \<^verbatim>\<open>throw new CustomError(msg, status)\<close> raise.
\<close>

datatype error = Error string | CustomError string nat

section \<open>\<^verbatim>\<open>create\<close>: the upload type\<close>

text \<open>\<^verbatim>\<open>xs[i]\<close>: the entry, \<open>None\<close> (\<^verbatim>\<open>undefined\<close>) past the end.\<close>

definition index :: "'a list \<Rightarrow> nat \<Rightarrow> 'a option" where
  "index xs i = (if i < length xs then Some (xs ! i) else None)"

text \<open>
  Lines 61--62. \<^verbatim>\<open>fileNameParts[1]\<close> is \<^verbatim>\<open>undefined\<close> when the name has no
  underscore, and the list of the three types does not include it; the upload type
  \<^verbatim>\<open>null\<close> is \<open>None\<close>.
\<close>

definition parse_uploadType :: "string \<Rightarrow> string option" where
  "parse_uploadType originalFileName =
     (let fileNameParts = split_on CHR ''_'' originalFileName in
      case index fileNameParts 1 of
        Some part \<Rightarrow>
          if part \<in> set [''clients'', ''contacts'', ''results''] then Some part else None
      | None \<Rightarrow> None)"

section \<open>\<^verbatim>\<open>create\<close>: the \<^verbatim>\<open>data\<close> handler\<close>

text \<open>Line 83: \<^verbatim>\<open>ctcNumbers.map((item) => item.ctc_number)\<close>.\<close>

definition existingCtcNumbers :: "obj list \<Rightarrow> jsval list" where
  "existingCtcNumbers ctcNumbers = map (\<lambda>item. get_prop item (Name ''ctc_number'')) ctcNumbers"

text \<open>Lines 91--100: the value of \<^verbatim>\<open>rejectionReason\<close> when the \<^verbatim>\<open>if\<close> chain is done.\<close>

definition rejectionReason :: "string option \<Rightarrow> jsval list \<Rightarrow> obj \<Rightarrow> string" where
  "rejectionReason uploadType existing data =
     (if uploadType = Some ''clients'' \<and> js_includes existing (get_prop data (Col 0))
      then ''Duplicate CTC number in clients file''
      else if uploadType \<in> set [Some ''contacts'', Some ''results'']
              \<and> \<not> js_includes existing (get_prop data (Col 12))
      then (if uploadType = Some ''contacts''
            then ''No matching index client CTC number in contacts file''
            else ''No matching index client CTC number in results file'')
      else '''')"

text \<open>
  The decision of line 102 as a value: \<^verbatim>\<open>if (rejectionReason)\<close> takes the rejecting
  branch exactly when the string is not empty.
\<close>

datatype outcome = Accept | Reject string

definition classify :: "string option \<Rightarrow> jsval list \<Rightarrow> obj \<Rightarrow> outcome" where
  "classify uploadType existing data =
     (let reason = rejectionReason uploadType existing data in
      if reason \<noteq> '''' then Reject reason else Accept)"

text \<open>Line 103.\<close>

definition reject_row :: "string \<Rightarrow> obj \<Rightarrow> obj" where
  "reject_row reason data = set_prop data (Name ''rejectionReason'') (JStr reason)"

text \<open>Lines 107--110: the first accepted row gets the names of the four fields.\<close>

definition label_row :: "obj \<Rightarrow> obj" where
  "label_row data =
     set_prop (set_prop (set_prop (set_prop data
       (Name ''providerId'') (JStr ''providerId''))
       (Name ''team'') (JStr ''team''))
       (Name ''teamId'') (JStr ''teamId''))
       (Name ''locationId'') (JStr ''locationId'')"

text \<open>Lines 113--116: every later accepted row gets the caller's values.\<close>

definition stamp_row :: "identity \<Rightarrow> obj \<Rightarrow> obj" where
  "stamp_row d data =
     set_prop (set_prop (set_prop (set_prop data
       (Name ''providerId'') (providerId d))
       (Name ''team'') (team d))
       (Name ''teamId'') (teamId d))
       (Name ''locationId'') (locationId d)"

text \<open>Lines 85--88: the two buffers and the flag the handlers share.\<close>

record stream_state =
  results :: "obj list"
  rejectedRows :: "obj list"
  isFirstRow :: bool

definition initial_state :: stream_state where
  "initial_state = \<lparr>results = [], rejectedRows = [], isFirstRow = True\<rparr>"

text \<open>Lines 90--120: one \<^verbatim>\<open>data\<close> event. \<^verbatim>\<open>push\<close> adds at the end.\<close>

definition on_data ::
  "string option \<Rightarrow> jsval list \<Rightarrow> identity \<Rightarrow> stream_state \<Rightarrow> obj \<Rightarrow> stream_state" where
  "on_data uploadType existing d st data =
     (let reason = rejectionReason uploadType existing data in
      if reason \<noteq> '''' then
        st\<lparr>rejectedRows := rejectedRows st @ [reject_row reason data]\<rparr>
      else if isFirstRow st then
        st\<lparr>results := results st @ [label_row data], isFirstRow := False\<rparr>
      else
        st\<lparr>results := results st @ [stamp_row d data]\<rparr>)"

text \<open>
  Line 165: the file is piped through the parser, so the handler sees every line, in
  order, before the \<^verbatim>\<open>end\<close> event. The handler has no failing branch: the stream
  always reaches its end.
\<close>

definition process_file ::
  "string option \<Rightarrow> jsval list \<Rightarrow> identity \<Rightarrow> string list list \<Rightarrow> stream_state" where
  "process_file uploadType existing d rows =
     foldl (on_data uploadType existing d) initial_state (map writeRow rows)"

section \<open>\<^verbatim>\<open>create\<close>: the \<^verbatim>\<open>end\<close> handler\<close>

text \<open>
  Lines 126--138. The template string prints \<^verbatim>\<open>null\<close> as the text \<^verbatim>\<open>null\<close>.
\<close>

definition uploadDirectory :: "string option \<Rightarrow> error + string" where
  "uploadDirectory uploadType =
     (if uploadType = Some ''clients'' then Inr ''index_uploads''
      else if uploadType = Some ''contacts'' then Inr ''contacts_uploads''
      else if uploadType = Some ''results'' then Inr ''results_uploads''
      else Inl (Error (''Invalid upload type: ''
                  @ (case uploadType of None \<Rightarrow> ''null'' | Some t \<Rightarrow> t))))"

text \<open>
  Line 140: \<^verbatim>\<open>join(__dirname, `../public/${uploadDirectory}`, originalFileName)\<close>,
  kept as the two parts that vary.
\<close>

type_synonym file_path = "string \<times> string"

text \<open>Lines 141--145: the options \<^verbatim>\<open>createObjectCsvWriter\<close> is given.\<close>

record csv_writer =
  path :: file_path
  header :: "key list"
  alwaysQuote :: bool

text \<open>
  The files under \<^verbatim>\<open>public/\<close>: the records of each, and the fields of each record as
  written.
\<close>

type_synonym files = "file_path \<Rightarrow> string list list option"

text \<open>
  Modelled from the spec: the csv-writer package is not among the sources. A writer
  whose header is a list of field names emits, for every record, the fields the header
  names ("header is derived from the key set of the first row"), each through the field
  stringifier that \<^verbatim>\<open>alwaysQuote\<close> selects. That stringifier is the parameter
  \<open>stringify\<close>.
\<close>

definition writeRecords ::
  "(bool \<Rightarrow> jsval \<Rightarrow> string) \<Rightarrow> csv_writer \<Rightarrow> obj list \<Rightarrow> files \<Rightarrow> files" where
  "writeRecords stringify w records fs =
     fs(path w \<mapsto>
        map (\<lambda>r. map (\<lambda>fieldId. stringify (alwaysQuote w) (get_prop r fieldId)) (header w))
          records)"

text \<open>
  The field stringifiers of csv-writer, which is not among the sources. Both write a
  value that is \<^verbatim>\<open>undefined\<close>, \<^verbatim>\<open>null\<close> or the empty string as an empty field.
  The one that \<^verbatim>\<open>alwaysQuote: true\<close> selects writes every other value as
  \<^verbatim>\<open>String(value)\<close> between double quotes, a double quote inside it doubled. The
  one used without \<^verbatim>\<open>alwaysQuote\<close>, which \<open>create\<close> never selects, is the
  parameter \<open>plain\<close>.
\<close>

definition isEmpty :: "jsval \<Rightarrow> bool" where
  "isEmpty v = (v = JUndefined \<or> v = JNull \<or> v = JStr '''')"

definition quoteField :: "string \<Rightarrow> string" where
  "quoteField s =
     CHR 0x22 # concat (map (\<lambda>c. if c = CHR 0x22 then [c, c] else [c]) s) @ [CHR 0x22]"

definition fieldStringifier :: "(jsval \<Rightarrow> string) \<Rightarrow> bool \<Rightarrow> jsval \<Rightarrow> string" where
  "fieldStringifier plain always v =
     (if always then (if isEmpty v then '''' else quoteField (String_of v)) else plain v)"


text \<open>Lines 151--157: the body of the 201 response.\<close>

record payload =
  token :: jsval
  authenticated :: bool
  message :: string
  rejected :: bool
  rejectedRows' :: "obj list"

text \<open>\<^verbatim>\<open>response.api(req, res, status, payload)\<close>: the status and the body.\<close>

type_synonym response = "nat \<times> payload"

text \<open>
  Lines 122--163: the \<^verbatim>\<open>end\<close> event. \<^verbatim>\<open>results[0]\<close> is read only when the
  buffer is not empty; \<^verbatim>\<open>rejectedRows.slice(1)\<close> drops the first entry. An error thrown
  here is the result \<open>Inl\<close>, and the files are as they were.
\<close>

definition on_end ::
  "(bool \<Rightarrow> jsval \<Rightarrow> string) \<Rightarrow> string \<Rightarrow> string option \<Rightarrow> stream_state \<Rightarrow> files
     \<Rightarrow> (error + response) \<times> files" where
  "on_end stringify originalFileName uploadType st fs =
     (case results st of
        first # _ \<Rightarrow>
          (case uploadDirectory uploadType of
             Inl e \<Rightarrow> (Inl e, fs)
           | Inr dir \<Rightarrow>
               (let filePath = (dir, originalFileName);
                    csvWriter = \<lparr>path = filePath, header = Object_keys first,
                                 alwaysQuote = True\<rparr>;
                    fs' = writeRecords stringify csvWriter (results st) fs;
                    rejected = (length (rejectedRows st) > 0);
                    payload = \<lparr>token = JNull, authenticated = True,
                      message = ''File uploaded, processed, and saved successfully!'',
                      rejected = rejected,
                      rejectedRows' = (if rejected then drop 1 (rejectedRows st)
                                       else rejectedRows st)\<rparr>
                in (Inr (201, payload), fs')))
      | [] \<Rightarrow> (Inl (CustomError ''All rows were rejected.'' 400), fs))"

section \<open>\<^verbatim>\<open>create\<close>\<close>

text \<open>
  Lines 56--170, from the request, the deduplicator's answer and the files on disk to
  the error or response and the files afterwards.
\<close>

definition create ::
  "(bool \<Rightarrow> jsval \<Rightarrow> string) \<Rightarrow> request \<Rightarrow> fetch_response \<Rightarrow> files
     \<Rightarrow> (error + response) \<times> files" where
  "create stringify req ctcNumbersResponse fs =
     (case req_file req of
        None \<Rightarrow> (Inl (Error ''No file provided!''), fs)
      | Some f \<Rightarrow>
          (let originalFileName = originalname f;
               uploadType = parse_uploadType originalFileName in
           if \<not> ok ctcNumbersResponse then
             (Inl (Error ''CTC Deuplicator checker unavailable. Retry later!''), fs)
           else
             (let existing = existingCtcNumbers (json ctcNumbersResponse);
                  st = process_file uploadType existing (decoded req) (buffer f)
              in on_end stringify originalFileName uploadType st fs)))"

section \<open>Views of the run used to state the properties\<close>

text \<open>The buffers and the flag when the \<^verbatim>\<open>end\<close> event fires in \<open>create\<close>.\<close>

definition final_state :: "request \<Rightarrow> upload_file \<Rightarrow> fetch_response \<Rightarrow> stream_state" where
  "final_state req f ctcNumbersResponse =
     process_file (parse_uploadType (originalname f))
       (existingCtcNumbers (json ctcNumbersResponse)) (decoded req) (buffer f)"

text \<open>The lines of a file whose rows the handler accepts, and those it rejects.\<close>

definition accepted_lines ::
  "string option \<Rightarrow> jsval list \<Rightarrow> string list list \<Rightarrow> string list list" where
  "accepted_lines uploadType existing rows =
     filter (\<lambda>cells. classify uploadType existing (writeRow cells) = Accept) rows"

definition rejected_lines ::
  "string option \<Rightarrow> jsval list \<Rightarrow> string list list \<Rightarrow> string list list" where
  "rejected_lines uploadType existing rows =
     filter (\<lambda>cells. classify uploadType existing (writeRow cells) \<noteq> Accept) rows"

text \<open>
  What the accepting branch makes of a list of rows: the labels on the row that finds
  the flag set, the caller's values on the others.
\<close>

fun enrich :: "identity \<Rightarrow> bool \<Rightarrow> obj list \<Rightarrow> obj list" where
  "enrich d first [] = []"
| "enrich d first (data # rows) =
     (if first then label_row data else stamp_row d data) # enrich d False rows"

text \<open>The parsed row inside a buffer entry: its positional properties.\<close>

definition original :: "obj \<Rightarrow> obj" where
  "original ob = filter (\<lambda>(k, v). case k of Col i \<Rightarrow> True | Name s \<Rightarrow> False) ob"

section \<open>Example inputs\<close>

text \<open>
  A caller, the deduplicator's answer \<^verbatim>\<open>[{"ctc_number": "CTC100"}]\<close>, and three
  uploads: a clients file with two duplicates among four lines, a contacts file whose two
  lines (of thirteen cells) name unknown index clients, and a file of an unknown type.
\<close>

abbreviation caller :: identity where
  "caller \<equiv> \<lparr>providerId = JStr ''P-17'', team = JStr ''Kinondoni'', teamId = JNum ''4'',
               locationId = JStr ''L-9''\<rparr>"

abbreviation known :: fetch_response where
  "known \<equiv> \<lparr>ok = True, json = [[(Name ''ctc_number'', JStr ''CTC100'')]]\<rparr>"

abbreviation clients_file :: upload_file where
  "clients_file \<equiv> \<lparr>originalname = ''batch_clients_001.csv'',
     buffer = [[''CTC100'', ''Asha''], [''CTC200'', ''Juma''], [''CTC100'', ''Asha B''],
               [''CTC300'', ''Neema'', ''F'']]\<rparr>"

abbreviation contact_line :: "string \<Rightarrow> string list" where
  "contact_line ctc \<equiv> replicate 12 ''x'' @ [ctc]"

abbreviation contacts_file :: upload_file where
  "contacts_file \<equiv> \<lparr>originalname = ''batch_contacts_002.csv'',
     buffer = [contact_line ''CTC777'', contact_line ''CTC888'']\<rparr>"

abbreviation orders_file :: upload_file where
  "orders_file \<equiv> \<lparr>originalname = ''batch_orders_003.csv'',
     buffer = [[''CTC100'', ''Asha''], [''CTC200'', ''Juma'']]\<rparr>"

abbreviation upload :: "upload_file \<Rightarrow> request" where
  "upload f \<equiv> \<lparr>req_file = Some f, decoded = caller\<rparr>"

text \<open>
  The stringifiers of the examples; \<^verbatim>\<open>String()\<close> stands for the one that is never
  selected.
\<close>

abbreviation stringifier :: "bool \<Rightarrow> jsval \<Rightarrow> string" where
  "stringifier \<equiv> fieldStringifier String_of"


text \<open>The spec's scenario: a clients file with one known and one new identifier.\<close>

abbreviation scenario_file :: upload_file where
  "scenario_file \<equiv> \<lparr>originalname = ''batch_clients_001.csv'',
     buffer = [[''CTC100'', ''Asha''], [''CTC200'', ''Juma'']]\<rparr>"

section \<open>Objects and parsed rows\<close>

lemma set_prop_append:
  "k \<notin> fst ` set ob \<Longrightarrow> set_prop (ob @ extra) k v = ob @ set_prop extra k v"
  by (induction ob) auto

lemma Name_notin_writeRow: "Name s \<notin> fst ` set (writeRow cells)"
  by (auto simp: writeRow_def in_set_enumerate_eq)

lemma set_prop_writeRow:
  "set_prop (writeRow cells @ extra) (Name s) v = writeRow cells @ set_prop extra (Name s) v"
  by (rule set_prop_append) (rule Name_notin_writeRow)

lemma set_prop_writeRow0:
  "set_prop (writeRow cells) (Name s) v = writeRow cells @ [(Name s, v)]"
  using set_prop_writeRow [of cells "[]" s v] by simp



text \<open>A parsed row has no property of the controller's yet, so each assignment adds one.\<close>

lemma label_row_writeRow:
  "label_row (writeRow cells) =
     writeRow cells @ [(Name ''providerId'', JStr ''providerId''), (Name ''team'', JStr ''team''),
       (Name ''teamId'', JStr ''teamId''), (Name ''locationId'', JStr ''locationId'')]"
  by (simp add: label_row_def set_prop_writeRow0 set_prop_writeRow)

lemma stamp_row_writeRow:
  "stamp_row d (writeRow cells) =
     writeRow cells @ [(Name ''providerId'', providerId d), (Name ''team'', team d),
       (Name ''teamId'', teamId d), (Name ''locationId'', locationId d)]"
  by (simp add: stamp_row_def set_prop_writeRow0 set_prop_writeRow)

lemma reject_row_writeRow:
  "reject_row reason (writeRow cells) = writeRow cells @ [(Name ''rejectionReason'', JStr reason)]"
  by (simp add: reject_row_def set_prop_writeRow0)

lemma map_of_enumerate:
  "map_of (map (\<lambda>(index, cell). (Col index, JStr cell)) (enumerate n cells)) (Col i) =
     (if n \<le> i \<and> i < n + length cells then Some (JStr (cells ! (i - n))) else None)"
proof (induction cells arbitrary: n)
  case Nil
  then show ?case by simp
next
  case (Cons c cells)
  show ?case
  proof (cases "i = n")
    case True
    then show ?thesis by simp
  next
    case False
    then show ?thesis
      using Cons.IH [of "Suc n"] by (auto simp: nth_Cons' Suc_diff_le)
  qed
qed

text \<open>\<^verbatim>\<open>data._i\<close> is the cell at position \<open>i\<close>, or \<^verbatim>\<open>undefined\<close> on a shorter line.\<close>

lemma get_prop_writeRow:
  "get_prop (writeRow cells) (Col i) = (if i < length cells then JStr (cells ! i) else JUndefined)"
  using map_of_enumerate [of 0 cells i] by (simp add: get_prop_def writeRow_def)






lemma original_writeRow: "original (writeRow cells) = writeRow cells"
  by (simp add: original_def writeRow_def filter_map comp_def split_def)

lemma original_set_prop: "original (set_prop ob (Name s) v) = original ob"
  by (induction ob) (auto simp: original_def)

lemma original_label_row: "original (label_row ob) = original ob"
  by (simp add: label_row_def original_set_prop)

lemma original_stamp_row: "original (stamp_row d ob) = original ob"
  by (simp add: stamp_row_def original_set_prop)

lemma original_reject_row: "original (reject_row reason ob) = original ob"
  by (simp add: reject_row_def original_set_prop)

section \<open>The stream\<close>

text \<open>The handler's three branches, by the decision of line 102.\<close>

lemma on_data_classify:
  "on_data uploadType existing d st data =
     (case classify uploadType existing data of
        Reject reason \<Rightarrow> st\<lparr>rejectedRows := rejectedRows st @ [reject_row reason data]\<rparr>
      | Accept \<Rightarrow>
          if isFirstRow st
          then st\<lparr>results := results st @ [label_row data], isFirstRow := False\<rparr>
          else st\<lparr>results := results st @ [stamp_row d data]\<rparr>)"
  by (simp add: on_data_def classify_def Let_def)

lemma classify_None: "classify None existing data = Accept"
  by (simp add: classify_def rejectionReason_def)

text \<open>
  The state after any number of \<^verbatim>\<open>data\<close> events, from any state: the state is
  generalised, since every event changes it.
\<close>

lemma foldl_on_data:
  "foldl (on_data ut ex d) st rows =
     \<lparr>results = results st
        @ enrich d (isFirstRow st) (filter (\<lambda>x. classify ut ex x = Accept) rows),
      rejectedRows = rejectedRows st
        @ map (\<lambda>x. reject_row (rejectionReason ut ex x) x)
            (filter (\<lambda>x. classify ut ex x \<noteq> Accept) rows),
      isFirstRow = (isFirstRow st \<and> filter (\<lambda>x. classify ut ex x = Accept) rows = [])\<rparr>"
  by (induction rows arbitrary: st)
     (simp_all add: on_data_def classify_def Let_def)

lemma enrich_False: "enrich d False rows = map (stamp_row d) rows"
  by (induction rows) simp_all

lemma map_original_enrich: "map original (enrich d first rows) = map original rows"
  by (induction rows arbitrary: first) (simp_all add: original_label_row original_stamp_row)

lemma length_enrich: "length (enrich d first rows) = length rows"
  by (induction rows arbitrary: first) simp_all

lemma results_process_file:
  "results (process_file ut ex d rows) = enrich d True (map writeRow (accepted_lines ut ex rows))"
  by (simp add: process_file_def foldl_on_data initial_state_def accepted_lines_def
        filter_map comp_def)

lemma rejectedRows_process_file:
  "rejectedRows (process_file ut ex d rows) =
     map (\<lambda>cells. reject_row (rejectionReason ut ex (writeRow cells)) (writeRow cells))
       (rejected_lines ut ex rows)"
  by (simp add: process_file_def foldl_on_data initial_state_def rejected_lines_def
        filter_map comp_def)

lemma results_final_state:
  "results (final_state req f resp) =
     enrich (decoded req) True (map writeRow
       (accepted_lines (parse_uploadType (originalname f)) (existingCtcNumbers (json resp))
          (buffer f)))"
  by (simp add: final_state_def results_process_file)

lemma rejectedRows_final_state:
  "rejectedRows (final_state req f resp) =
     map (\<lambda>cells. reject_row (rejectionReason (parse_uploadType (originalname f))
                     (existingCtcNumbers (json resp)) (writeRow cells)) (writeRow cells))
       (rejected_lines (parse_uploadType (originalname f)) (existingCtcNumbers (json resp))
          (buffer f))"
  by (simp add: final_state_def rejectedRows_process_file)

section \<open>The outcomes of \<open>create\<close>\<close>

lemma parse_uploadType_Some:
  "parse_uploadType n = Some t \<Longrightarrow> t = ''clients'' \<or> t = ''contacts'' \<or> t = ''results''"
  by (auto simp: parse_uploadType_def Let_def split: option.splits if_splits)

lemma uploadDirectory_valid:
  "t = ''clients'' \<or> t = ''contacts'' \<or> t = ''results''
   \<Longrightarrow> \<exists>dir. uploadDirectory (Some t) = Inr dir"
  by (auto simp: uploadDirectory_def)

lemma create_empty:
  "req_file req = Some f \<Longrightarrow> ok resp \<Longrightarrow> results (final_state req f resp) = [] \<Longrightarrow>
   create stringify req resp fs = (Inl (CustomError ''All rows were rejected.'' 400), fs)"
  by (simp add: create_def on_end_def final_state_def Let_def)

lemma create_invalid:
  "req_file req = Some f \<Longrightarrow> ok resp \<Longrightarrow> results (final_state req f resp) = r0 # rs \<Longrightarrow>
   uploadDirectory (parse_uploadType (originalname f)) = Inl e \<Longrightarrow>
   create stringify req resp fs = (Inl e, fs)"
  by (simp add: create_def on_end_def final_state_def Let_def)

lemma create_written:
  "req_file req = Some f \<Longrightarrow> ok resp \<Longrightarrow> results (final_state req f resp) = r0 # rs \<Longrightarrow>
   uploadDirectory (parse_uploadType (originalname f)) = Inr dir \<Longrightarrow>
   create stringify req resp fs =
     (Inr (201, \<lparr>token = JNull, authenticated = True,
                 message = ''File uploaded, processed, and saved successfully!'',
                 rejected = (rejectedRows (final_state req f resp) \<noteq> []),
                 rejectedRows' = tl (rejectedRows (final_state req f resp))\<rparr>),
      writeRecords stringify
        \<lparr>path = (dir, originalname f), header = Object_keys r0, alwaysQuote = True\<rparr>
        (results (final_state req f resp)) fs)"
  by (cases "rejectedRows (final_state req f resp)")
     (simp_all add: create_def on_end_def final_state_def Let_def)

lemma create_Inr_cases:
  assumes "create stringify req resp fs = (Inr r, fs')" and "req_file req = Some f"
  obtains r0 rs dir where "ok resp" and "results (final_state req f resp) = r0 # rs"
    and "uploadDirectory (parse_uploadType (originalname f)) = Inr dir"
  using assms
  by (auto simp: create_def on_end_def final_state_def Let_def
           split: if_splits list.splits sum.splits)

section \<open>The example runs\<close>







lemma known_numbers: "existingCtcNumbers (json known) = [JStr ''CTC100'']"
  by (simp add: existingCtcNumbers_def get_prop_def)

lemma type_of_clients_file: "parse_uploadType (originalname clients_file) = Some ''clients''"
  by (simp add: parse_uploadType_def index_def)

lemma type_of_contacts_file: "parse_uploadType (originalname contacts_file) = Some ''contacts''"
  by (simp add: parse_uploadType_def index_def)

lemma part_of_orders_file:
  "index (split_on CHR ''_'' (originalname orders_file)) 1 = Some ''orders''"
  by (simp add: index_def)

lemma accepted_clients_file:
  "accepted_lines (Some ''clients'') [JStr ''CTC100''] (buffer clients_file)
     = [[''CTC200'', ''Juma''], [''CTC300'', ''Neema'', ''F'']]"
  by (simp add: accepted_lines_def classify_def rejectionReason_def js_includes_def
        get_prop_writeRow)

lemma rejected_clients_file:
  "rejected_lines (Some ''clients'') [JStr ''CTC100''] (buffer clients_file)
     = [[''CTC100'', ''Asha''], [''CTC100'', ''Asha B'']]"
  by (simp add: rejected_lines_def classify_def rejectionReason_def js_includes_def
        get_prop_writeRow)

lemma accepted_contacts_file:
  "accepted_lines (Some ''contacts'') [JStr ''CTC100''] (buffer contacts_file) = []"
  by (simp add: accepted_lines_def classify_def rejectionReason_def js_includes_def
        get_prop_writeRow nth_append)

lemma results_clients_run:
  "results (final_state (upload clients_file) clients_file known)
     = [label_row (writeRow [''CTC200'', ''Juma'']),
        stamp_row caller (writeRow [''CTC300'', ''Neema'', ''F''])]"
  by (simp only: results_final_state type_of_clients_file known_numbers accepted_clients_file)
     simp

lemma rejected_clients_run:
  "rejectedRows (final_state (upload clients_file) clients_file known)
     = [writeRow [''CTC100'', ''Asha'']
          @ [(Name ''rejectionReason'', JStr ''Duplicate CTC number in clients file'')],
        writeRow [''CTC100'', ''Asha B'']
          @ [(Name ''rejectionReason'', JStr ''Duplicate CTC number in clients file'')]]"
  by (simp only: rejectedRows_final_state type_of_clients_file known_numbers rejected_clients_file)
     (simp add: reject_row_writeRow rejectionReason_def js_includes_def get_prop_writeRow)

lemma clients_run:
  "create stringifier (upload clients_file) known Map.empty =
     (Inr (201, \<lparr>token = JNull, authenticated = True,
                 message = ''File uploaded, processed, and saved successfully!'',
                 rejected = (rejectedRows (final_state (upload clients_file) clients_file known)
                               \<noteq> []),
                 rejectedRows' =
                   tl (rejectedRows (final_state (upload clients_file) clients_file known))\<rparr>),
      writeRecords stringifier
        \<lparr>path = (''index_uploads'', ''batch_clients_001.csv''),
         header = Object_keys (label_row (writeRow [''CTC200'', ''Juma''])),
         alwaysQuote = True\<rparr>
        (results (final_state (upload clients_file) clients_file known)) Map.empty)"
proof -
  have dir: "uploadDirectory (parse_uploadType (originalname clients_file)) = Inr ''index_uploads''"
    by (simp only: type_of_clients_file) (simp add: uploadDirectory_def)
  from create_written [OF _ _ results_clients_run dir, of stringifier Map.empty]
  show ?thesis by simp
qed

section \<open>The row classifier\<close>

text \<open>
  Claim C1, with the reasons as the code words them. For every row, upload type and
  reference list the decision is: a clients row whose field 0 is in the reference list is
  rejected with the reason "Duplicate CTC number in clients file"; a contacts or results
  row whose field 12 is not in the reference list is rejected with "No matching index
  client CTC number in contacts file" or "... in results file" respectively; every other
  row is accepted.
\<close>

theorem classify_policy:
  "classify uploadType existing data =
     (if uploadType = Some ''clients'' \<and> js_includes existing (get_prop data (Col 0))
      then Reject ''Duplicate CTC number in clients file''
      else if uploadType = Some ''contacts'' \<and> \<not> js_includes existing (get_prop data (Col 12))
      then Reject ''No matching index client CTC number in contacts file''
      else if uploadType = Some ''results'' \<and> \<not> js_includes existing (get_prop data (Col 12))
      then Reject ''No matching index client CTC number in results file''
      else Accept)"
  by (auto simp: classify_def rejectionReason_def)

theorem classify_policy_witness:
  "classify (Some ''clients'') [JStr ''CTC100''] (writeRow [''CTC100'', ''Asha''])
     = Reject ''Duplicate CTC number in clients file''
   \<and> classify (Some ''clients'') [JStr ''CTC100''] (writeRow [''CTC200'', ''Juma'']) = Accept
   \<and> classify (Some ''results'') [JStr ''CTC100''] (writeRow [''r1''])
     = Reject ''No matching index client CTC number in results file''"
  using classify_policy [of "Some ''clients''" "[JStr ''CTC100'']" "writeRow [''CTC100'', ''Asha'']"]
    classify_policy [of "Some ''clients''" "[JStr ''CTC100'']" "writeRow [''CTC200'', ''Juma'']"]
    classify_policy [of "Some ''results''" "[JStr ''CTC100'']" "writeRow [''r1'']"]
  by (simp add: js_includes_def get_prop_writeRow)

text \<open>
  With the reason "Duplicate identifier in clients file" the statement does not hold: a
  clients row whose identifier is known is rejected, but not with that text.
\<close>

theorem classify_spec_reason_counterexample:
  "js_includes [JStr ''CTC100''] (get_prop (writeRow [''CTC100'', ''Asha'']) (Col 0))
   \<and> classify (Some ''clients'') [JStr ''CTC100''] (writeRow [''CTC100'', ''Asha''])
       \<noteq> Reject ''Duplicate identifier in clients file''"
  by (simp add: classify_def rejectionReason_def js_includes_def get_prop_writeRow)

section \<open>The two buffers\<close>

text \<open>
  Claim C2. For every file, upload type and reference list, each parsed row is appended
  to exactly one of the two buffers. Read back from the buffer entries, the accepted
  buffer holds the rows the handler accepts and the rejected buffer the rows it rejects,
  each in the order of the file; together they hold every row as often as the file does
  (none dropped, none appended twice), and no row is in both.
\<close>

theorem each_row_in_exactly_one_buffer:
  "map original (results (process_file uploadType existing d rows))
     = map writeRow (accepted_lines uploadType existing rows)
   \<and> map original (rejectedRows (process_file uploadType existing d rows))
     = map writeRow (rejected_lines uploadType existing rows)
   \<and> mset (map original (results (process_file uploadType existing d rows)))
       + mset (map original (rejectedRows (process_file uploadType existing d rows)))
     = mset (map writeRow rows)
   \<and> set (map original (results (process_file uploadType existing d rows)))
       \<inter> set (map original (rejectedRows (process_file uploadType existing d rows))) = {}"
proof -
  let ?st = "process_file uploadType existing d rows"
  have acc: "map original (results ?st) = map writeRow (accepted_lines uploadType existing rows)"
    by (simp add: results_process_file map_original_enrich original_writeRow)
  have rej: "map original (rejectedRows ?st)
      = map writeRow (rejected_lines uploadType existing rows)"
    by (simp add: rejectedRows_process_file original_reject_row original_writeRow comp_def)
  have part: "mset (accepted_lines uploadType existing rows)
      + mset (rejected_lines uploadType existing rows) = mset rows"
    by (simp add: accepted_lines_def rejected_lines_def)
  have "mset (map original (results ?st)) + mset (map original (rejectedRows ?st))
      = image_mset writeRow (mset (accepted_lines uploadType existing rows)
          + mset (rejected_lines uploadType existing rows))"
    by (simp add: acc rej)
  then have all: "mset (map original (results ?st)) + mset (map original (rejectedRows ?st))
      = mset (map writeRow rows)"
    by (simp only: part mset_map)
  have disj: "set (map original (results ?st)) \<inter> set (map original (rejectedRows ?st)) = {}"
    unfolding acc rej by (auto simp: accepted_lines_def rejected_lines_def)
  from acc rej all disj show ?thesis by blast
qed

theorem each_row_in_exactly_one_buffer_witness:
  "map original
     (results (process_file (Some ''clients'') [JStr ''CTC100''] caller (buffer clients_file)))
     = [writeRow [''CTC200'', ''Juma''], writeRow [''CTC300'', ''Neema'', ''F'']]
   \<and> map original
     (rejectedRows (process_file (Some ''clients'') [JStr ''CTC100''] caller (buffer clients_file)))
     = [writeRow [''CTC100'', ''Asha''], writeRow [''CTC100'', ''Asha B'']]"
  using each_row_in_exactly_one_buffer
          [of "Some ''clients''" "[JStr ''CTC100'']" caller "buffer clients_file"]
  by (simp only: accepted_clients_file rejected_clients_file) simp

text \<open>
  Claim C3. Whenever a row is accepted, the accepted buffer is: first the first accepted
  row with the four fields \<^verbatim>\<open>providerId\<close>, \<^verbatim>\<open>team\<close>, \<^verbatim>\<open>teamId\<close>, \<^verbatim>\<open>locationId\<close>
  added, each holding its own name; then every later accepted row with the same four fields
  holding the caller's values. Rows rejected before the first accepted one do not change
  this: the label row is the first entry.
\<close>

theorem label_row_first:
  assumes "accepted_lines uploadType existing rows = first # others"
  shows "results (process_file uploadType existing d rows) =
      (writeRow first
         @ [(Name ''providerId'', JStr ''providerId''), (Name ''team'', JStr ''team''),
            (Name ''teamId'', JStr ''teamId''), (Name ''locationId'', JStr ''locationId'')])
      # map (\<lambda>cells. writeRow cells
                 @ [(Name ''providerId'', providerId d), (Name ''team'', team d),
                    (Name ''teamId'', teamId d), (Name ''locationId'', locationId d)]) others"
  by (simp add: results_process_file assms enrich_False label_row_writeRow stamp_row_writeRow)

theorem label_row_first_witness:
  "accepted_lines (Some ''clients'') [JStr ''CTC100''] (buffer clients_file)
     = [[''CTC200'', ''Juma''], [''CTC300'', ''Neema'', ''F'']]
   \<and> results (process_file (Some ''clients'') [JStr ''CTC100''] caller (buffer clients_file))
     = [writeRow [''CTC200'', ''Juma'']
          @ [(Name ''providerId'', JStr ''providerId''), (Name ''team'', JStr ''team''),
             (Name ''teamId'', JStr ''teamId''), (Name ''locationId'', JStr ''locationId'')],
        writeRow [''CTC300'', ''Neema'', ''F'']
          @ [(Name ''providerId'', JStr ''P-17''), (Name ''team'', JStr ''Kinondoni''),
             (Name ''teamId'', JNum ''4''), (Name ''locationId'', JStr ''L-9'')]]"
  using label_row_first [OF accepted_clients_file, of caller] accepted_clients_file
  by simp

section \<open>The report\<close>

text \<open>
  Claim C4. For every upload that succeeds, the report's \<^verbatim>\<open>rejected\<close> flag is true
  exactly when the rejected buffer is not empty, and when it is true the reported
  \<^verbatim>\<open>rejectedRows\<close> are the rejected buffer without its first entry, whatever that
  entry is; when it is false the reported list is empty, as the buffer is.
\<close>

theorem report_flag_and_rows:
  assumes "req_file req = Some f"
    and "create stringify req resp fs = (Inr (status, p), fs')"
  shows "rejected p = (rejectedRows (final_state req f resp) \<noteq> [])
       \<and> (rejected p \<longrightarrow> rejectedRows' p = tl (rejectedRows (final_state req f resp)))
       \<and> (\<not> rejected p \<longrightarrow> rejectedRows' p = [])"
proof -
  from assms(2,1) obtain r0 rs dir where "ok resp"
    and "results (final_state req f resp) = r0 # rs"
    and "uploadDirectory (parse_uploadType (originalname f)) = Inr dir"
    by (rule create_Inr_cases)
  from create_written [OF assms(1) this, of stringify fs] assms(2)
  have "p = \<lparr>token = JNull, authenticated = True,
             message = ''File uploaded, processed, and saved successfully!'',
             rejected = (rejectedRows (final_state req f resp) \<noteq> []),
             rejectedRows' = tl (rejectedRows (final_state req f resp))\<rparr>"
    by simp
  then show ?thesis by auto
qed

theorem report_flag_and_rows_witness:
  "\<exists>p fs'. create stringifier (upload clients_file) known Map.empty
       = (Inr (201, p), fs')
     \<and> rejected p = True
     \<and> rejectedRows' p = [writeRow [''CTC100'', ''Asha B'']
          @ [(Name ''rejectionReason'', JStr ''Duplicate CTC number in clients file'')]]"
proof -
  obtain p fs' where run:
    "create stringifier (upload clients_file) known Map.empty = (Inr (201, p), fs')"
    using clients_run by blast
  from report_flag_and_rows [OF _ run, of clients_file] rejected_clients_run
  have "rejected p = True \<and> rejectedRows' p = [writeRow [''CTC100'', ''Asha B'']
          @ [(Name ''rejectionReason'', JStr ''Duplicate CTC number in clients file'')]]"
    by simp
  with run show ?thesis by blast
qed

text \<open>
  Claim C9. For every upload with at least one accepted row and exactly one rejected
  row, the response is the 201 report with \<^verbatim>\<open>rejected\<close> true and an empty
  \<^verbatim>\<open>rejectedRows\<close>: the only rejected row, with its reason, is the entry dropped.
\<close>

theorem sole_rejected_row_dropped:
  assumes "req_file req = Some f" and "ok resp"
    and "results (final_state req f resp) \<noteq> []"
    and "length (rejectedRows (final_state req f resp)) = 1"
  shows "\<exists>fs'. create stringify req resp fs =
      (Inr (201, \<lparr>token = JNull, authenticated = True,
                  message = ''File uploaded, processed, and saved successfully!'',
                  rejected = True, rejectedRows' = []\<rparr>), fs')"
proof -
  let ?st = "final_state req f resp"
  from assms(3) obtain r0 rs where res: "results ?st = r0 # rs"
    by (cases "results ?st") auto
  from assms(4) obtain x where rej: "rejectedRows ?st = [x]"
    by (cases "rejectedRows ?st") auto
  have "parse_uploadType (originalname f) \<noteq> None"
  proof
    assume "parse_uploadType (originalname f) = None"
    then have "rejectedRows ?st = []"
      by (simp add: rejectedRows_final_state rejected_lines_def classify_None)
    with rej show False by simp
  qed
  then obtain t where t: "parse_uploadType (originalname f) = Some t" by auto
  with parse_uploadType_Some [OF t] uploadDirectory_valid [of t]
  obtain dir where "uploadDirectory (parse_uploadType (originalname f)) = Inr dir"
    by auto
  from create_written [OF assms(1,2) res this, of stringify fs] rej
  show ?thesis by simp
qed

theorem sole_rejected_row_dropped_witness:
  "results (final_state (upload scenario_file) scenario_file known)
     = [label_row (writeRow [''CTC200'', ''Juma''])]
   \<and> rejectedRows (final_state (upload scenario_file) scenario_file known)
     = [writeRow [''CTC100'', ''Asha'']
          @ [(Name ''rejectionReason'', JStr ''Duplicate CTC number in clients file'')]]
   \<and> fst (create stringifier (upload scenario_file) known Map.empty)
     = Inr (201, \<lparr>token = JNull, authenticated = True,
                  message = ''File uploaded, processed, and saved successfully!'',
                  rejected = True, rejectedRows' = []\<rparr>)"
proof -
  have ut: "parse_uploadType (originalname scenario_file) = Some ''clients''"
    by (simp add: parse_uploadType_def index_def)
  have acc: "accepted_lines (Some ''clients'') [JStr ''CTC100''] (buffer scenario_file)
      = [[''CTC200'', ''Juma'']]"
    by (simp add: accepted_lines_def classify_def rejectionReason_def js_includes_def
          get_prop_writeRow)
  have rejl: "rejected_lines (Some ''clients'') [JStr ''CTC100''] (buffer scenario_file)
      = [[''CTC100'', ''Asha'']]"
    by (simp add: rejected_lines_def classify_def rejectionReason_def js_includes_def
          get_prop_writeRow)
  have res: "results (final_state (upload scenario_file) scenario_file known)
      = [label_row (writeRow [''CTC200'', ''Juma''])]"
    by (simp only: results_final_state ut known_numbers acc) simp
  have rej: "rejectedRows (final_state (upload scenario_file) scenario_file known)
      = [writeRow [''CTC100'', ''Asha'']
          @ [(Name ''rejectionReason'', JStr ''Duplicate CTC number in clients file'')]]"
    by (simp only: rejectedRows_final_state ut known_numbers rejl)
       (simp add: reject_row_writeRow rejectionReason_def js_includes_def get_prop_writeRow)
  have "fst (create stringifier (upload scenario_file) known Map.empty)
     = Inr (201, \<lparr>token = JNull, authenticated = True,
                  message = ''File uploaded, processed, and saved successfully!'',
                  rejected = True, rejectedRows' = []\<rparr>)"
    using sole_rejected_row_dropped
            [of "upload scenario_file" scenario_file known stringifier Map.empty]
    by (auto simp: res rej)
  with res rej show ?thesis by blast
qed

section \<open>The written file\<close>




section \<open>The failures\<close>

text \<open>
  Claim C6. For every upload whose accepted buffer is empty when the stream has ended,
  the operation fails with the error "All rows were rejected." (status 400) and no file
  is written. The upload type plays no part: the error is the same when the type is not
  a known one.
\<close>

theorem all_rejected_fails:
  assumes "req_file req = Some f" and "ok resp"
    and "results (final_state req f resp) = []"
  shows "create stringify req resp fs = (Inl (CustomError ''All rows were rejected.'' 400), fs)"
  using assms by (rule create_empty)

theorem all_rejected_fails_witness:
  "results (final_state (upload contacts_file) contacts_file known) = []
   \<and> create stringifier (upload contacts_file) known Map.empty
       = (Inl (CustomError ''All rows were rejected.'' 400), Map.empty)
   \<and> parse_uploadType ''batch_orders_003.csv'' = None
   \<and> create stringifier
       (upload \<lparr>originalname = ''batch_orders_003.csv'', buffer = []\<rparr>) known Map.empty
       = (Inl (CustomError ''All rows were rejected.'' 400), Map.empty)"
proof -
  have res: "results (final_state (upload contacts_file) contacts_file known) = []"
    by (simp only: results_final_state type_of_contacts_file known_numbers
          accepted_contacts_file) simp
  have none: "parse_uploadType ''batch_orders_003.csv'' = None"
    by (simp add: parse_uploadType_def index_def)
  have res': "results (final_state (upload \<lparr>originalname = ''batch_orders_003.csv'', buffer = []\<rparr>)
      \<lparr>originalname = ''batch_orders_003.csv'', buffer = []\<rparr> known) = []"
    by (simp add: results_final_state accepted_lines_def)
  from all_rejected_fails [OF _ _ res, of stringifier Map.empty]
    all_rejected_fails [OF _ _ res', of stringifier Map.empty] res none
  show ?thesis by simp
qed

text \<open>
  Claim C7. For every upload for which the deduplicator's answer is not \<^verbatim>\<open>ok\<close>, the
  upload fails with the error "CTC Deuplicator checker unavailable. Retry later!" and
  the files are as they were. The result does not depend on the lines of the file: it
  is decided before the file is piped into the parser.
\<close>

theorem fetch_failure_aborts:
  assumes "\<not> ok resp"
  shows "create stringify \<lparr>req_file = Some \<lparr>originalname = name, buffer = rows\<rparr>, decoded = d\<rparr>
           resp fs
       = (Inl (Error ''CTC Deuplicator checker unavailable. Retry later!''), fs)"
  using assms by (simp add: create_def Let_def)

theorem fetch_failure_aborts_witness:
  "create stringifier (upload clients_file) \<lparr>ok = False, json = []\<rparr> Map.empty
     = (Inl (Error ''CTC Deuplicator checker unavailable. Retry later!''), Map.empty)"
  using fetch_failure_aborts [of "\<lparr>ok = False, json = []\<rparr>" stringifier
          "originalname clients_file" "buffer clients_file" caller Map.empty]
  by simp

text \<open>
  Claim C8. For every upload whose file name has no second part among \<^verbatim>\<open>clients\<close>,
  \<^verbatim>\<open>contacts\<close>, \<^verbatim>\<open>results\<close>, the upload type is \<^verbatim>\<open>null\<close>; the stream is
  consumed to its end with every line accepted and none rejected; and only then does the
  upload fail: with "Invalid upload type: null" when the accepted buffer is not empty,
  with "All rows were rejected." when it is empty. No file is written.
\<close>

theorem invalid_type_surfaces_at_end:
  assumes "req_file req = Some f" and "ok resp"
    and "index (split_on CHR ''_'' (originalname f)) 1
           \<notin> {Some ''clients'', Some ''contacts'', Some ''results''}"
  shows "parse_uploadType (originalname f) = None
       \<and> results (final_state req f resp) = enrich (decoded req) True (map writeRow (buffer f))
       \<and> length (results (final_state req f resp)) = length (buffer f)
       \<and> rejectedRows (final_state req f resp) = []
       \<and> create stringify req resp fs =
           (Inl (if results (final_state req f resp) = []
                 then CustomError ''All rows were rejected.'' 400
                 else Error ''Invalid upload type: null''), fs)"
proof -
  let ?st = "final_state req f resp"
  from assms(3) have ut: "parse_uploadType (originalname f) = None"
    by (auto simp: parse_uploadType_def Let_def split: option.splits)
  have res: "results ?st = enrich (decoded req) True (map writeRow (buffer f))"
    by (simp add: results_final_state ut accepted_lines_def classify_None)
  have rej: "rejectedRows ?st = []"
    by (simp add: rejectedRows_final_state ut rejected_lines_def classify_None)
  have cr: "create stringify req resp fs =
           (Inl (if results ?st = []
                 then CustomError ''All rows were rejected.'' 400
                 else Error ''Invalid upload type: null''), fs)"
  proof (cases "results ?st")
    case Nil
    then show ?thesis using create_empty [OF assms(1,2) Nil] by simp
  next
    case (Cons r0 rs)
    have "uploadDirectory (parse_uploadType (originalname f))
        = Inl (Error ''Invalid upload type: null'')"
      by (simp add: ut uploadDirectory_def)
    from create_invalid [OF assms(1,2) Cons this] Cons show ?thesis by simp
  qed
  from ut res rej cr show ?thesis by (simp add: length_enrich)
qed

theorem invalid_type_surfaces_at_end_witness:
  "index (split_on CHR ''_'' (originalname orders_file)) 1 = Some ''orders''
   \<and> parse_uploadType (originalname orders_file) = None
   \<and> results (final_state (upload orders_file) orders_file known)
       = [label_row (writeRow [''CTC100'', ''Asha'']),
          stamp_row caller (writeRow [''CTC200'', ''Juma''])]
   \<and> create stringifier (upload orders_file) known Map.empty
       = (Inl (Error ''Invalid upload type: null''), Map.empty)"
proof -
  have part: "index (split_on CHR ''_'' (originalname orders_file)) 1
      \<notin> {Some ''clients'', Some ''contacts'', Some ''results''}"
    by (simp only: part_of_orders_file) simp
  from invalid_type_surfaces_at_end [OF _ _ part, of "upload orders_file" known
         stringifier Map.empty] part_of_orders_file
  show ?thesis by simp
qed

section \<open>Short rows\<close>

text \<open>
  Claim C10, for reference lists without an \<^verbatim>\<open>undefined\<close> entry (every object of the
  deduplicator's answer has a \<^verbatim>\<open>ctc_number\<close>). For every contacts or results upload,
  a row of fewer than 13 fields is rejected with the no-match reason of its type. The
  decision is a value for every row: reading the missing field gives \<^verbatim>\<open>undefined\<close>
  and raises nothing.
\<close>

theorem short_row_rejected:
  assumes "JUndefined \<notin> set existing" and "length cells < 13"
    and "uploadType = Some ''contacts'' \<or> uploadType = Some ''results''"
  shows "classify uploadType existing (writeRow cells) =
      Reject (if uploadType = Some ''contacts''
              then ''No matching index client CTC number in contacts file''
              else ''No matching index client CTC number in results file'')"
  using assms
  by (auto simp: classify_def rejectionReason_def js_includes_def get_prop_writeRow)

theorem short_row_rejected_witness:
  "JUndefined \<notin> set [JStr ''CTC100'', JNull]
   \<and> classify (Some ''contacts'') [JStr ''CTC100'', JNull] (writeRow [''x'', ''y''])
       = Reject ''No matching index client CTC number in contacts file''
   \<and> classify (Some ''results'') [JStr ''CTC100'', JNull] (writeRow [])
       = Reject ''No matching index client CTC number in results file''"
  using short_row_rejected [of "[JStr ''CTC100'', JNull]" "[''x'', ''y'']" "Some ''contacts''"]
    short_row_rejected [of "[JStr ''CTC100'', JNull]" "[]" "Some ''results''"]
  by simp

text \<open>
  Without that condition the statement does not hold. When an object of the answer has
  no \<^verbatim>\<open>ctc_number\<close> (here the answer \<^verbatim>\<open>[{"id": 1}]\<close>), the reference list holds
  \<^verbatim>\<open>undefined\<close>, \<^verbatim>\<open>includes\<close> finds the missing field in it, and the short row
  is accepted.
\<close>

theorem short_row_accepted_counterexample:
  "length [''x'', ''y''] < 13
   \<and> classify (Some ''contacts'') (existingCtcNumbers [[(Name ''id'', JNum ''1'')]])
        (writeRow [''x'', ''y'']) = Accept"
proof -
  have "existingCtcNumbers [[(Name ''id'', JNum ''1'')]] = [JUndefined]"
    by (simp add: existingCtcNumbers_def get_prop_def)
  then show ?thesis
    by (simp add: classify_def rejectionReason_def js_includes_def get_prop_writeRow)
qed

end
